theory Spec2Isabelle
  imports Main "HOL-Library.AList"
begin

section \<open>The Terraform-subset interpreter of \<^verbatim>\<open>terraform_parser.py\<close>\<close>

text \<open>
  A shallow embedding of \<^verbatim>\<open>src/antlr/program/terraform_parser.py\<close>: the listener that
  fills the document model during the tree walk, token resolution, the state file, and the
  apply and destroy operations with the provisioning API as a collaborator.

  Conventions.
  \<^item> A Python \<^verbatim>\<open>dict\<close> with string keys is an association list with distinct keys;
    \<^verbatim>\<open>d[k] = v\<close> is \<open>AList.update k v d\<close> (an existing key keeps its position and
    takes the new value, a new key is appended), \<^verbatim>\<open>k in d\<close> and \<^verbatim>\<open>d[k]\<close> are
    \<open>map_of d k\<close>, and \<^verbatim>\<open>not d\<close> is \<open>d = []\<close>.
  \<^item> Every \<^verbatim>\<open>raise\<close> is a value \<open>Inl e\<close> of the type \<open>error + 'a\<close>.
  \<^item> The \<^verbatim>\<open>print\<close> calls (progress notices) are left out.
\<close>

subsection \<open>Errors\<close>

text \<open>
  The source raises plain \<^verbatim>\<open>Exception\<close>s told apart by their message; the constructors
  carry the names the specification gives them:
  \<^item> \<open>UnsupportedProviderError\<close>: "Only 'digitalocean' provider is supported." (line 29);
  \<^item> \<open>MissingTokenError\<close>: "No token specified in provider block." (line 50);
  \<^item> \<open>UndefinedVariableError n\<close>: "Undefined variable 'n' used in provider block." (line 56);
  \<^item> \<open>MissingResourceError\<close>: "Missing digitalocean_droplet resource." (line 179).
  The others are the exceptions of the Python runtime (a missing key, an index out of
  range, a value of the wrong type) and \<open>RemoteOperationError\<close>, whatever the HTTP
  collaborator raises.
\<close>

datatype error =
    UnsupportedProviderError
  | MissingTokenError
  | UndefinedVariableError string
  | MissingResourceError
  | KeyError string
  | IndexError
  | TypeError
  | AttributeError
  | RemoteOperationError

subsection \<open>String operations of the Python runtime\<close>

abbreviation quote :: char where
  "quote \<equiv> CHR 0x22"

text \<open>\<^verbatim>\<open>s.strip(c)\<close> for a one-character argument: all leading and trailing \<open>c\<close> go.\<close>

definition strip :: "char \<Rightarrow> string \<Rightarrow> string" where
  "strip c s = rev (dropWhile (\<lambda>x. x = c) (rev (dropWhile (\<lambda>x. x = c) s)))"

text \<open>\<^verbatim>\<open>s.split(c)\<close>: the pieces between the occurrences of \<open>c\<close>; never empty.\<close>

fun split :: "char \<Rightarrow> string \<Rightarrow> string list" where
  "split c [] = [[]]"
| "split c (x # xs) =
     (if x = c then [] # split c xs
      else (case split c xs of
              [] \<Rightarrow> [[x]]
            | piece # pieces \<Rightarrow> (x # piece) # pieces))"

text \<open>\<^verbatim>\<open>s.startswith(p)\<close>.\<close>

definition startswith :: "string \<Rightarrow> string \<Rightarrow> bool" where
  "startswith s p = (take (length p) s = p)"

text \<open>\<^verbatim>\<open>str(n)\<close> on an integer: its decimal digits, after a minus sign if negative.\<close>

fun str_nat :: "nat \<Rightarrow> string" where
  "str_nat n =
     (if n < 10 then [''0123456789'' ! n]
      else str_nat (n div 10) @ [''0123456789'' ! (n mod 10)])"

declare str_nat.simps [simp del]

definition str :: "int \<Rightarrow> string" where
  "str i = (if i < 0 then CHR ''-'' # str_nat (nat (- i)) else str_nat (nat i))"

subsection \<open>The parse tree and the listener\<close>

text \<open>
  The grammar is not part of the sources; the listener reads from the tree only the
  kind of each block, the text of its \<^verbatim>\<open>STRING\<close> tokens (quotes included) and, for each
  \<^verbatim>\<open>keyValue\<close> of its body, the text of the \<^verbatim>\<open>IDENTIFIER\<close> and of the \<^verbatim>\<open>expr\<close>.
  A document is the list of its blocks in the order the walker enters them. The tree is
  taken as complete: every token the listener asks for is there.
\<close>

type_synonym keyValue = "string \<times> string"

datatype block =
    Variable string "keyValue list"
  | Provider string "keyValue list"
  | Resource string string "keyValue list"

type_synonym dict = "(string \<times> string) list"

record listener =
  variables :: dict
  provider_token_expr :: "string option"
  droplet_config :: dict

text \<open>\<^verbatim>\<open>TerraformListener.__init__\<close>.\<close>

definition init :: listener where
  "init = \<lparr>variables = [], provider_token_expr = None, droplet_config = []\<rparr>"

text \<open>\<^verbatim>\<open>enterVariable\<close> (lines 17-24): every \<^verbatim>\<open>default\<close> key of the body overwrites the entry.\<close>

definition enterVariable :: "listener \<Rightarrow> string \<Rightarrow> keyValue list \<Rightarrow> listener" where
  "enterVariable l name_text body =
     l\<lparr>variables :=
         fold (\<lambda>(key, expr) vars.
                 if key = ''default'' then AList.update (strip quote name_text) (strip quote expr) vars
                 else vars)
              body (variables l)\<rparr>"

text \<open>\<^verbatim>\<open>enterProvider\<close> (lines 26-35).\<close>

definition enterProvider :: "listener \<Rightarrow> string \<Rightarrow> keyValue list \<Rightarrow> error + listener" where
  "enterProvider l name_text body =
     (if strip quote name_text \<noteq> ''digitalocean'' then Inl UnsupportedProviderError
      else Inr (l\<lparr>provider_token_expr :=
                    fold (\<lambda>(key, expr) tok. if key = ''token'' then Some expr else tok)
                         body (provider_token_expr l)\<rparr>))"

text \<open>\<^verbatim>\<open>enterResource\<close> (lines 37-46); the resource name is read and not used.\<close>

definition enterResource :: "listener \<Rightarrow> string \<Rightarrow> string \<Rightarrow> keyValue list \<Rightarrow> listener" where
  "enterResource l type_text name_text body =
     (if strip quote type_text \<noteq> ''digitalocean_droplet'' then l
      else l\<lparr>droplet_config :=
               fold (\<lambda>(key, expr) cfg. AList.update key (strip quote expr) cfg)
                    body (droplet_config l)\<rparr>)"

text \<open>\<^verbatim>\<open>ParseTreeWalker.walk\<close>: the blocks in document order; an exception ends the walk.\<close>

fun enter :: "listener \<Rightarrow> block \<Rightarrow> error + listener" where
  "enter l (Variable name_text body) = Inr (enterVariable l name_text body)"
| "enter l (Provider name_text body) = enterProvider l name_text body"
| "enter l (Resource type_text name_text body) = Inr (enterResource l type_text name_text body)"

fun walk :: "listener \<Rightarrow> block list \<Rightarrow> error + listener" where
  "walk l [] = Inr l"
| "walk l (b # bs) = (case enter l b of Inl e \<Rightarrow> Inl e | Inr l' \<Rightarrow> walk l' bs)"

text \<open>
  \<^verbatim>\<open>resolve_token\<close> (lines 48-57). \<^verbatim>\<open>not self.provider_token_expr\<close> holds of \<^verbatim>\<open>None\<close> and
  of the empty text. After \<^verbatim>\<open>startswith("var.")\<close> the split has at least two pieces; the
  \<open>IndexError\<close> branch is what \<^verbatim>\<open>[1]\<close> would raise otherwise.
\<close>

definition resolve_token :: "listener \<Rightarrow> error + string" where
  "resolve_token l =
     (case provider_token_expr l of
        None \<Rightarrow> Inl MissingTokenError
      | Some expr \<Rightarrow>
          if expr = [] then Inl MissingTokenError
          else if startswith expr ''var.'' then
            (case split CHR ''.'' expr of
               _ # var_name # _ \<Rightarrow>
                 (case map_of (variables l) var_name of
                    Some v \<Rightarrow> Inr v
                  | None \<Rightarrow> Inl (UndefinedVariableError var_name))
             | _ \<Rightarrow> Inl IndexError)
          else Inr (strip quote expr))"

subsection \<open>JSON values and the state file\<close>

text \<open>
  The state file holds what \<^verbatim>\<open>json.load\<close> returns from it: a JSON value, an object being
  a \<^verbatim>\<open>dict\<close> with string keys. \<^verbatim>\<open>json.dump\<close> followed by \<^verbatim>\<open>json.load\<close> gives back
  a value made of objects, lists, strings and integers unchanged, so the file is modelled
  by the value itself. Numbers with a fraction do not occur in what the program writes and
  are left out.
\<close>

datatype json =
    JNull
  | JBool bool
  | JInt int
  | JStr string
  | JList "json list"
  | JObj "(string \<times> json) list"

text \<open>\<^verbatim>\<open>x[key]\<close> for a string key.\<close>

fun subscript :: "json \<Rightarrow> string \<Rightarrow> error + json" where
  "subscript (JObj d) key = (case map_of d key of None \<Rightarrow> Inl (KeyError key) | Some v \<Rightarrow> Inr v)"
| "subscript _ key = Inl TypeError"

text \<open>\<^verbatim>\<open>x[0]\<close>: the first element of a list or string; no object has the key \<^verbatim>\<open>0\<close>.\<close>

fun subscript0 :: "json \<Rightarrow> error + json" where
  "subscript0 (JList []) = Inl IndexError"
| "subscript0 (JList (x # _)) = Inr x"
| "subscript0 (JStr []) = Inl IndexError"
| "subscript0 (JStr (c # _)) = Inr (JStr [c])"
| "subscript0 (JObj _) = Inl (KeyError ''0'')"
| "subscript0 _ = Inl TypeError"

text \<open>\<^verbatim>\<open>x.get(key, default)\<close>: only a \<^verbatim>\<open>dict\<close> has the method.\<close>

fun get_default :: "json \<Rightarrow> string \<Rightarrow> json \<Rightarrow> error + json" where
  "get_default (JObj d) key dflt = (case map_of d key of None \<Rightarrow> Inr dflt | Some v \<Rightarrow> Inr v)"
| "get_default _ key dflt = Inl AttributeError"

text \<open>\<^verbatim>\<open>for item in x\<close>: the elements of a list, the keys of a dict, the characters of a string.\<close>

fun iterate :: "json \<Rightarrow> error + json list" where
  "iterate (JList xs) = Inr xs"
| "iterate (JObj d) = Inr (map (\<lambda>(k, _). JStr k) d)"
| "iterate (JStr s) = Inr (map (\<lambda>c. JStr [c]) s)"
| "iterate _ = Inl TypeError"

text \<open>
  The world outside the process: the content of \<^verbatim>\<open>terraform.tfstate\<close> (\<open>None\<close> when the
  file does not exist) and the requests sent to the provisioning API so far, oldest first.
\<close>

record payload =
  p_name :: string
  p_region :: string
  p_size :: string
  p_image :: string

datatype api_call =
    Post string payload
  | Get string int
  | Delete string json

record world =
  tfstate :: "json option"
  calls :: "api_call list"

text \<open>\<^verbatim>\<open>config[key]\<close> on the resource configuration.\<close>

definition config_get :: "dict \<Rightarrow> string \<Rightarrow> error + string" where
  "config_get config key = (case map_of config key of None \<Rightarrow> Inl (KeyError key) | Some v \<Rightarrow> Inr v)"

text \<open>The \<^verbatim>\<open>"attributes"\<close> mapping that \<^verbatim>\<open>save_state_file\<close> builds (lines 113-120): the record saved.\<close>

definition saved_attributes :: "dict \<Rightarrow> int \<Rightarrow> string \<Rightarrow> error + (string \<times> json) list" where
  "saved_attributes config droplet_id ip =
     (case config_get config ''name'' of Inl e \<Rightarrow> Inl e | Inr name_v \<Rightarrow>
     (case config_get config ''region'' of Inl e \<Rightarrow> Inl e | Inr region_v \<Rightarrow>
     (case config_get config ''size'' of Inl e \<Rightarrow> Inl e | Inr size_v \<Rightarrow>
     (case config_get config ''image'' of Inl e \<Rightarrow> Inl e | Inr image_v \<Rightarrow>
        Inr [(''id'', JStr (str droplet_id)),
             (''name'', JStr name_v),
             (''region'', JStr region_v),
             (''size'', JStr size_v),
             (''image'', JStr image_v),
             (''ipv4_address'', JStr ip)]))))"

text \<open>\<^verbatim>\<open>save_state_file\<close> (lines 100-130): the state is built first, then the file is written.\<close>

definition save_state_file :: "dict \<Rightarrow> int \<Rightarrow> string \<Rightarrow> world \<Rightarrow> error + world" where
  "save_state_file config droplet_id ip w =
     (case saved_attributes config droplet_id ip of
        Inl e \<Rightarrow> Inl e
      | Inr attributes \<Rightarrow>
          Inr (w\<lparr>tfstate := Some (JObj
            [(''version'', JInt 4),
             (''terraform_version'', JStr ''custom''),
             (''resources'', JList [JObj
                [(''mode'', JStr ''managed''),
                 (''type'', JStr ''digitalocean_droplet''),
                 (''name'', JStr ''web''),
                 (''provider'', JStr ''digitalocean''),
                 (''instances'', JList [JObj [(''attributes'', JObj attributes)]])]])])\<rparr>))"

text \<open>The body of the \<^verbatim>\<open>for resource in ...\<close> loop of \<^verbatim>\<open>load_state_file\<close> (lines 139-148).\<close>

fun find_droplet :: "json list \<Rightarrow> error + (string \<times> json) list option" where
  "find_droplet [] = Inr None"
| "find_droplet (resource # rest) =
     (case get_default resource ''type'' JNull of Inl e \<Rightarrow> Inl e | Inr t \<Rightarrow>
        if t = JStr ''digitalocean_droplet'' then
          (case subscript resource ''instances'' of Inl e \<Rightarrow> Inl e | Inr instances \<Rightarrow>
          (case subscript0 instances of Inl e \<Rightarrow> Inl e | Inr instance \<Rightarrow>
          (case subscript instance ''attributes'' of Inl e \<Rightarrow> Inl e | Inr attrs \<Rightarrow>
          (case subscript attrs ''id'' of Inl e \<Rightarrow> Inl e | Inr i \<Rightarrow>
          (case subscript attrs ''name'' of Inl e \<Rightarrow> Inl e | Inr n \<Rightarrow>
          (case subscript attrs ''ipv4_address'' of Inl e \<Rightarrow> Inl e | Inr a \<Rightarrow>
             Inr (Some [(''id'', i), (''name'', n), (''ip'', a)])))))))
        else find_droplet rest)"

text \<open>
  \<^verbatim>\<open>load_state_file\<close> (lines 132-151): \<open>Inr None\<close> is the \<^verbatim>\<open>None\<close> it returns when the file
  does not exist or lists no droplet; only \<^verbatim>\<open>FileNotFoundError\<close> is caught.
\<close>

definition load_state_file :: "world \<Rightarrow> error + (string \<times> json) list option" where
  "load_state_file w =
     (case tfstate w of
        None \<Rightarrow> Inr None
      | Some state \<Rightarrow>
          (case get_default state ''resources'' (JList []) of Inl e \<Rightarrow> Inl e | Inr resources \<Rightarrow>
          (case iterate resources of Inl e \<Rightarrow> Inl e | Inr items \<Rightarrow>
             find_droplet items)))"

text \<open>
  \<^verbatim>\<open>os.remove("terraform.tfstate")\<close> inside its \<^verbatim>\<open>try\<close> (lines 213-217): a file that is
  not there is not an error.
\<close>

definition remove_state_file :: "world \<Rightarrow> world" where
  "remove_state_file w = w\<lparr>tfstate := None\<rparr>"

text \<open>Saving and then loading, as one step.\<close>

definition save_then_load :: "dict \<Rightarrow> int \<Rightarrow> string \<Rightarrow> world \<Rightarrow> error + (string \<times> json) list option" where
  "save_then_load config droplet_id ip w =
     (case save_state_file config droplet_id ip w of
        Inl e \<Rightarrow> Inl e
      | Inr w' \<Rightarrow> load_state_file w')"

subsection \<open>The provisioning API and the two operations\<close>

text \<open>
  The HTTP collaborator. \<open>post token payload\<close> is the droplet id of the answer to the
  create request (an integer in the API's answers), or the exception of
  \<^verbatim>\<open>raise_for_status\<close>; \<open>get token id n\<close> is the \<^verbatim>\<open>networks.v4\<close> list of the answer to
  the \<open>n\<close>-th read of the droplet (the answers change as time passes), or the exception
  raised while fetching or decoding it; \<open>delete token id\<close> is the outcome of the delete
  request.
\<close>

record network =
  net_type :: string
  ip_address :: string

record api =
  post :: "string \<Rightarrow> payload \<Rightarrow> error + int"
  get :: "string \<Rightarrow> int \<Rightarrow> nat \<Rightarrow> error + network list"
  delete :: "string \<Rightarrow> json \<Rightarrow> error + unit"

text \<open>The list comprehension of line 92.\<close>

definition public_ips :: "network list \<Rightarrow> string list" where
  "public_ips networks = map ip_address (filter (\<lambda>n. net_type n = ''public'') networks)"

text \<open>
  The \<^verbatim>\<open>while True\<close> loop of \<^verbatim>\<open>create_droplet\<close> (lines 88-96), \<open>n\<close> counting the reads
  made so far. The loop has no bound: where it runs forever the value is \<open>None\<close>.
\<close>

partial_function (option) poll ::
  "api \<Rightarrow> string \<Rightarrow> int \<Rightarrow> nat \<Rightarrow> world \<Rightarrow> ((error + string) \<times> world) option" where
  "poll a api_token droplet_id n w =
     (case get a api_token droplet_id n of
        Inl e \<Rightarrow> Some (Inl e, w\<lparr>calls := calls w @ [Get api_token droplet_id]\<rparr>)
      | Inr networks \<Rightarrow>
          (case public_ips networks of
             ip # _ \<Rightarrow> Some (Inr ip, w\<lparr>calls := calls w @ [Get api_token droplet_id]\<rparr>)
           | [] \<Rightarrow> poll a api_token droplet_id (Suc n)
                     (w\<lparr>calls := calls w @ [Get api_token droplet_id]\<rparr>)))"

declare poll.simps [code]

text \<open>The payload of lines 66-78; the constant fields are left out.\<close>

definition build_payload :: "dict \<Rightarrow> error + payload" where
  "build_payload config =
     (case config_get config ''name'' of Inl e \<Rightarrow> Inl e | Inr name_v \<Rightarrow>
     (case config_get config ''region'' of Inl e \<Rightarrow> Inl e | Inr region_v \<Rightarrow>
     (case config_get config ''size'' of Inl e \<Rightarrow> Inl e | Inr size_v \<Rightarrow>
     (case config_get config ''image'' of Inl e \<Rightarrow> Inl e | Inr image_v \<Rightarrow>
        Inr \<lparr>p_name = name_v, p_region = region_v, p_size = size_v, p_image = image_v\<rparr>))))"

text \<open>\<^verbatim>\<open>create_droplet\<close> (lines 59-98).\<close>

definition create_droplet ::
  "api \<Rightarrow> string \<Rightarrow> dict \<Rightarrow> world \<Rightarrow> ((error + int \<times> string) \<times> world) option" where
  "create_droplet a api_token config w =
     (case build_payload config of
        Inl e \<Rightarrow> Some (Inl e, w)
      | Inr pl \<Rightarrow>
          (case post a api_token pl of
             Inl e \<Rightarrow> Some (Inl e, w\<lparr>calls := calls w @ [Post api_token pl]\<rparr>)
           | Inr droplet_id \<Rightarrow>
               (case poll a api_token droplet_id 0 (w\<lparr>calls := calls w @ [Post api_token pl]\<rparr>) of
                  None \<Rightarrow> None
                | Some (Inl e, w') \<Rightarrow> Some (Inl e, w')
                | Some (Inr ip, w') \<Rightarrow> Some (Inr (droplet_id, ip), w'))))"

text \<open>\<^verbatim>\<open>destroy_droplet\<close> (lines 153-163).\<close>

definition destroy_droplet :: "api \<Rightarrow> string \<Rightarrow> json \<Rightarrow> world \<Rightarrow> (error + unit) \<times> world" where
  "destroy_droplet a api_token droplet_id w =
     (delete a api_token droplet_id, w\<lparr>calls := calls w @ [Delete api_token droplet_id]\<rparr>)"

datatype outcome =
    ApplyComplete string
  | NothingToDestroy
  | DestroyComplete

text \<open>
  \<^verbatim>\<open>terraform_apply\<close> (lines 165-185), from the parse tree on. The result is \<open>None\<close> when
  the polling loop never ends, otherwise the error raised or the success reported, with
  the world as the operation leaves it.
\<close>

definition terraform_apply :: "api \<Rightarrow> world \<Rightarrow> block list \<Rightarrow> ((error + outcome) \<times> world) option" where
  "terraform_apply a w tree =
     (case walk init tree of
        Inl e \<Rightarrow> Some (Inl e, w)
      | Inr l \<Rightarrow>
          (case resolve_token l of
             Inl e \<Rightarrow> Some (Inl e, w)
           | Inr token \<Rightarrow>
               if droplet_config l = [] then Some (Inl MissingResourceError, w)
               else
                 (case create_droplet a token (droplet_config l) w of
                    None \<Rightarrow> None
                  | Some (Inl e, w') \<Rightarrow> Some (Inl e, w')
                  | Some (Inr (droplet_id, ip), w') \<Rightarrow>
                      (case save_state_file (droplet_config l) droplet_id ip w' of
                         Inl e \<Rightarrow> Some (Inl e, w')
                       | Inr w'' \<Rightarrow> Some (Inr (ApplyComplete ip), w'')))))"

text \<open>\<^verbatim>\<open>terraform_destroy\<close> (lines 187-219), from the parse tree on.\<close>

definition terraform_destroy :: "api \<Rightarrow> world \<Rightarrow> block list \<Rightarrow> (error + outcome) \<times> world" where
  "terraform_destroy a w tree =
     (case load_state_file w of
        Inl e \<Rightarrow> (Inl e, w)
      | Inr None \<Rightarrow> (Inr NothingToDestroy, w)
      | Inr (Some state_info) \<Rightarrow>
          if state_info = [] then (Inr NothingToDestroy, w)
          else
            (case walk init tree of
               Inl e \<Rightarrow> (Inl e, w)
             | Inr l \<Rightarrow>
                 (case resolve_token l of
                    Inl e \<Rightarrow> (Inl e, w)
                  | Inr token \<Rightarrow>
                      (case map_of state_info ''id'' of
                         None \<Rightarrow> (Inl (KeyError ''id''), w)
                       | Some droplet_id \<Rightarrow>
                           (case destroy_droplet a token droplet_id w of
                              (Inl e, w') \<Rightarrow> (Inl e, w')
                            | (Inr _, w') \<Rightarrow> (Inr DestroyComplete, remove_state_file w'))))))"

subsection \<open>Sample inputs\<close>

text \<open>The text of a \<^verbatim>\<open>STRING\<close> token: the content between double quotes.\<close>

definition quoted :: "string \<Rightarrow> string" where
  "quoted s = quote # s @ [quote]"

text \<open>A collaborator that creates droplet 42 and reports its public address at the first read.\<close>

definition ready_api :: api where
  "ready_api =
     \<lparr>post = (\<lambda>token pl. Inr 42),
      get = (\<lambda>token droplet_id n. Inr [\<lparr>net_type = ''public'', ip_address = ''203.0.113.7''\<rparr>]),
      delete = (\<lambda>token droplet_id. Inr ())\<rparr>"

text \<open>A collaborator that creates droplet 42 and never reports an address for it.\<close>

definition stalled_api :: api where
  "stalled_api =
     \<lparr>post = (\<lambda>token pl. Inr 42),
      get = (\<lambda>token droplet_id n. Inr []),
      delete = (\<lambda>token droplet_id. Inr ())\<rparr>"

definition empty_world :: world where
  "empty_world = \<lparr>tfstate = None, calls = []\<rparr>"

text \<open>The droplet configuration of the specification's scenario.\<close>

definition sample_config :: dict where
  "sample_config =
     [(''name'', ''x''), (''region'', ''nyc3''), (''size'', ''s-1vcpu-1gb''),
      (''image'', ''ubuntu-22-04-x64'')]"

text \<open>The document of the specification's scenario.\<close>

definition sample_document :: "block list" where
  "sample_document =
     [Variable (quoted ''token'') [(''default'', quoted ''abc123'')],
      Provider (quoted ''digitalocean'') [(''token'', ''var.token'')],
      Resource (quoted ''digitalocean_droplet'') (quoted ''web'')
        [(''name'', quoted ''x''), (''region'', quoted ''nyc3''),
         (''size'', quoted ''s-1vcpu-1gb''), (''image'', quoted ''ubuntu-22-04-x64'')]]"

section \<open>Properties\<close>

subsection \<open>Strings\<close>

lemma split_no_sep: "c \<notin> set s \<Longrightarrow> split c s = [s]"
  by (induction s) auto

lemma split_append_sep: "c \<notin> set s \<Longrightarrow> split c (s @ c # r) = s # split c r"
  by (induction s) auto

lemma startswith_append: "startswith (p @ s) p"
  by (simp add: startswith_def)

lemma split_var:
  assumes "CHR ''.'' \<notin> set seg" and "rest = [] \<or> hd rest = CHR ''.''"
  shows "\<exists>ps. split CHR ''.'' (''var.'' @ seg @ rest) = ''var'' # seg # ps"
proof -
  have "CHR ''.'' \<notin> set ''var''" by simp
  then have "split CHR ''.'' (''var'' @ CHR ''.'' # (seg @ rest)) = ''var'' # split CHR ''.'' (seg @ rest)"
    by (rule split_append_sep)
  moreover have "\<exists>ps. split CHR ''.'' (seg @ rest) = seg # ps"
  proof (cases rest)
    case Nil
    then show ?thesis using assms(1) by (simp add: split_no_sep)
  next
    case (Cons x r)
    with assms(2) have "x = CHR ''.''" by simp
    with Cons show ?thesis using assms(1) by (simp add: split_append_sep)
  qed
  ultimately show ?thesis by auto
qed

subsection \<open>Token resolution\<close>

text \<open>
  The variable name of a reference is the text after \<^verbatim>\<open>var.\<close> up to the next dot or the
  end of the expression.
\<close>

lemma resolve_token_var:
  assumes "CHR ''.'' \<notin> set seg" and "rest = [] \<or> hd rest = CHR ''.''"
    and "provider_token_expr l = Some (''var.'' @ seg @ rest)"
  shows "resolve_token l =
           (case map_of (variables l) seg of
              Some v \<Rightarrow> Inr v
            | None \<Rightarrow> Inl (UndefinedVariableError seg))"
proof -
  obtain ps where s: "split CHR ''.'' (''var.'' @ seg @ rest) = ''var'' # seg # ps"
    using split_var [OF assms(1,2)] by blast
  have sw: "startswith (''var.'' @ seg @ rest) ''var.''"
    by (rule startswith_append)
  show ?thesis
    unfolding resolve_token_def using assms(3) s sw by simp
qed

text \<open>
  C10. A token expression that begins with \<^verbatim>\<open>var.\<close> and has a further dot is resolved with
  the segment between the first and the second dot as the variable name: the value of that
  segment when it is declared, otherwise the failure that names that segment alone.
\<close>

theorem resolve_token_first_segment:
  assumes "CHR ''.'' \<notin> set seg"
    and "provider_token_expr l = Some (''var.'' @ seg @ CHR ''.'' # rest)"
  shows "resolve_token l =
           (case map_of (variables l) seg of
              Some v \<Rightarrow> Inr v
            | None \<Rightarrow> Inl (UndefinedVariableError seg))"
  using assms by (intro resolve_token_var [where rest = "CHR ''.'' # rest"]) simp_all

theorem resolve_token_first_segment_witness:
  "CHR ''.'' \<notin> set ''a'' \<and>
   resolve_token \<lparr>variables = [(''a'', ''s'')], provider_token_expr = Some ''var.a.b.c'',
                  droplet_config = []\<rparr> = Inr ''s'' \<and>
   resolve_token \<lparr>variables = [(''b'', ''s'')], provider_token_expr = Some ''var.a.b.c'',
                  droplet_config = []\<rparr> = Inl (UndefinedVariableError ''a'')"
  using resolve_token_first_segment [of "''a''"
          "\<lparr>variables = [(''a'', ''s'')], provider_token_expr = Some ''var.a.b.c'',
            droplet_config = []\<rparr>" "''b.c''"]
        resolve_token_first_segment [of "''a''"
          "\<lparr>variables = [(''b'', ''s'')], provider_token_expr = Some ''var.a.b.c'',
            droplet_config = []\<rparr>" "''b.c''"]
  by simp

text \<open>
  C2, as stated, fails for a name with a dot in it: the variable \<^verbatim>\<open>a.b\<close> is declared and
  \<^verbatim>\<open>var.a.b\<close> fails, naming \<^verbatim>\<open>a\<close>; and with only \<^verbatim>\<open>a\<close> declared, \<^verbatim>\<open>var.a.b\<close>
  resolves although \<^verbatim>\<open>a.b\<close> is not in the table.
\<close>

theorem resolve_token_dotted_name_counterexample:
  "map_of [(''a.b'', ''s'')] ''a.b'' = Some ''s'' \<and>
   resolve_token \<lparr>variables = [(''a.b'', ''s'')], provider_token_expr = Some (''var.'' @ ''a.b''),
                  droplet_config = []\<rparr> = Inl (UndefinedVariableError ''a'') \<and>
   map_of [(''a'', ''s'')] ''a.b'' = None \<and>
   resolve_token \<lparr>variables = [(''a'', ''s'')], provider_token_expr = Some (''var.'' @ ''a.b''),
                  droplet_config = []\<rparr> = Inr ''s''"
  by (simp add: resolve_token_def startswith_def)

text \<open>
  C2, amended. For every variable table and every expression \<^verbatim>\<open>var.<name>\<close> whose name has
  no dot in it: when the table holds the name, resolution returns the value recorded for
  it (the default of its variable block); when it does not, resolution fails with
  \<open>UndefinedVariableError\<close> naming it.
\<close>

theorem resolve_token_var_reference:
  assumes "CHR ''.'' \<notin> set name"
    and "provider_token_expr l = Some (''var.'' @ name)"
  shows "(\<forall>v. map_of (variables l) name = Some v \<longrightarrow> resolve_token l = Inr v) \<and>
         (map_of (variables l) name = None \<longrightarrow>
            resolve_token l = Inl (UndefinedVariableError name))"
  using resolve_token_var [of name "[]" l] assms by simp

theorem resolve_token_var_reference_witness:
  "CHR ''.'' \<notin> set ''token'' \<and>
   map_of [(''token'', ''abc123'')] ''token'' = Some ''abc123'' \<and>
   resolve_token \<lparr>variables = [(''token'', ''abc123'')], provider_token_expr = Some ''var.token'',
                  droplet_config = []\<rparr> = Inr ''abc123'' \<and>
   map_of [(''other'', ''abc123'')] ''token'' = None \<and>
   resolve_token \<lparr>variables = [(''other'', ''abc123'')], provider_token_expr = Some ''var.token'',
                  droplet_config = []\<rparr> = Inl (UndefinedVariableError ''token'')"
  using resolve_token_var_reference [of "''token''"
          "\<lparr>variables = [(''token'', ''abc123'')], provider_token_expr = Some ''var.token'',
            droplet_config = []\<rparr>"]
        resolve_token_var_reference [of "''token''"
          "\<lparr>variables = [(''other'', ''abc123'')], provider_token_expr = Some ''var.token'',
            droplet_config = []\<rparr>"]
  by simp

text \<open>
  C9, as stated, fails: the text of the empty quoted literal is two quote characters,
  which is not empty, and the token resolves to the empty string.
\<close>

theorem resolve_token_empty_literal_counterexample:
  "walk init [Provider (quoted ''digitalocean'') [(''token'', quoted [])]] =
     Inr \<lparr>variables = [], provider_token_expr = Some [quote, quote], droplet_config = []\<rparr> \<and>
   resolve_token \<lparr>variables = [], provider_token_expr = Some [quote, quote],
                  droplet_config = []\<rparr> = Inr []"
  by (simp add: init_def enterProvider_def quoted_def strip_def resolve_token_def startswith_def)

text \<open>
  C9, amended. Token resolution fails with the missing-token error exactly when no token
  expression is stored or the stored text is empty; every other stored expression is
  resolved, and the empty quoted literal resolves to the empty string.
\<close>

theorem resolve_token_missing_iff:
  "(resolve_token l = Inl MissingTokenError) =
     (provider_token_expr l = None \<or> provider_token_expr l = Some []) \<and>
   (provider_token_expr l = Some (quoted []) \<longrightarrow> resolve_token l = Inr [])"
  by (auto simp: resolve_token_def quoted_def strip_def startswith_def
           split: option.splits list.splits)

theorem resolve_token_missing_iff_witness:
  "provider_token_expr \<lparr>variables = [], provider_token_expr = Some (quoted []),
                        droplet_config = []\<rparr> = Some (quoted []) \<and>
   resolve_token \<lparr>variables = [], provider_token_expr = Some (quoted []),
                  droplet_config = []\<rparr> = Inr [] \<and>
   resolve_token \<lparr>variables = [], provider_token_expr = None,
                  droplet_config = []\<rparr> = Inl MissingTokenError"
  using resolve_token_missing_iff [of "\<lparr>variables = [], provider_token_expr = Some (quoted []),
                  droplet_config = []\<rparr>"]
        resolve_token_missing_iff [of "\<lparr>variables = [], provider_token_expr = None,
                  droplet_config = []\<rparr>"]
  by simp

subsection \<open>The walk\<close>

lemma enter_error: "enter l b = Inl e \<Longrightarrow> e = UnsupportedProviderError"
  by (cases b) (auto simp: enterProvider_def split: if_splits)

lemma enter_unsupported:
  "strip quote name \<noteq> ''digitalocean'' \<Longrightarrow>
     enter l (Provider name body) = Inl UnsupportedProviderError"
  by (simp add: enterProvider_def)

lemma walk_unsupported:
  "Provider name body \<in> set doc \<Longrightarrow> strip quote name \<noteq> ''digitalocean'' \<Longrightarrow>
     walk l doc = Inl UnsupportedProviderError"
proof (induction doc arbitrary: l)
  case Nil
  then show ?case by simp
next
  case (Cons b bs)
  show ?case
  proof (cases "enter l b")
    case (Inl e)
    then show ?thesis using enter_error [OF Inl] by simp
  next
    case (Inr l')
    with Cons.prems have "b \<noteq> Provider name body"
      using enter_unsupported [of name l body] by auto
    with Cons.prems have "Provider name body \<in> set bs" by simp
    with Cons.IH Cons.prems(2) Inr show ?thesis by simp
  qed
qed

lemma walk_append:
  "walk l (xs @ ys) = (case walk l xs of Inl e \<Rightarrow> Inl e | Inr l' \<Rightarrow> walk l' ys)"
  by (induction xs arbitrary: l) (auto split: sum.splits)

lemma walk_split:
  assumes "walk l (front @ b # back) = Inr l'"
  obtains l0 l1 where "walk l front = Inr l0" and "enter l0 b = Inr l1" and "walk l1 back = Inr l'"
  using assms by (auto simp: walk_append split: sum.splits)

lemma fold_token_absent:
  "''token'' \<notin> fst ` set body \<Longrightarrow>
     fold (\<lambda>(key, expr) tok. if key = ''token'' then Some expr else tok) body t = t"
  by (induction body arbitrary: t) auto

lemma walk_no_token:
  "\<forall>name body. Provider name body \<in> set doc \<longrightarrow>
      strip quote name = ''digitalocean'' \<and> ''token'' \<notin> fst ` set body \<Longrightarrow>
   \<exists>l'. walk l doc = Inr l' \<and> provider_token_expr l' = provider_token_expr l"
proof (induction doc arbitrary: l)
  case Nil
  then show ?case by simp
next
  case (Cons b bs)
  have "\<exists>l1. enter l b = Inr l1 \<and> provider_token_expr l1 = provider_token_expr l"
  proof (cases b)
    case (Variable n body)
    then show ?thesis by (simp add: enterVariable_def)
  next
    case (Provider n body)
    with Cons.prems have "strip quote n = ''digitalocean''" and "''token'' \<notin> fst ` set body"
      by auto
    with Provider show ?thesis by (simp add: enterProvider_def fold_token_absent)
  next
    case (Resource t n body)
    then show ?thesis by (simp add: enterResource_def)
  qed
  then obtain l1 where l1: "enter l b = Inr l1" "provider_token_expr l1 = provider_token_expr l"
    by blast
  from Cons.prems have "\<forall>name body. Provider name body \<in> set bs \<longrightarrow>
      strip quote name = ''digitalocean'' \<and> ''token'' \<notin> fst ` set body" by simp
  from Cons.IH [OF this, of l1] l1 show ?case by simp
qed

lemma enterResource_other:
  "strip quote t \<noteq> ''digitalocean_droplet'' \<Longrightarrow> enterResource l t n body = l"
  by (simp add: enterResource_def)

lemma walk_no_droplet:
  "\<forall>t n body. Resource t n body \<in> set doc \<longrightarrow> strip quote t \<noteq> ''digitalocean_droplet'' \<Longrightarrow>
   walk l doc = Inr l' \<Longrightarrow> droplet_config l' = droplet_config l"
proof (induction doc arbitrary: l)
  case Nil
  then show ?case by simp
next
  case (Cons b bs)
  from Cons.prems(2) obtain l1 where l1: "enter l b = Inr l1" "walk l1 bs = Inr l'"
    by (auto split: sum.splits)
  have "droplet_config l1 = droplet_config l"
  proof (cases b)
    case (Variable n body)
    with l1 show ?thesis by (auto simp: enterVariable_def)
  next
    case (Provider n body)
    with l1 show ?thesis by (auto simp: enterProvider_def split: if_splits)
  next
    case (Resource t n body)
    with Cons.prems(1) have "strip quote t \<noteq> ''digitalocean_droplet''" by auto
    with Resource l1 show ?thesis by (simp add: enterResource_other)
  qed
  moreover from Cons.prems(1) have
    "\<forall>t n body. Resource t n body \<in> set bs \<longrightarrow> strip quote t \<noteq> ''digitalocean_droplet''"
    by simp
  from Cons.IH [OF this l1(2)] have "droplet_config l' = droplet_config l1" .
  ultimately show ?case by simp
qed

text \<open>
  C4. A document with a provider block whose type name (the \<^verbatim>\<open>STRING\<close> text without its
  quotes) is not \<^verbatim>\<open>digitalocean\<close> fails interpretation with \<open>UnsupportedProviderError\<close>.
  Apply fails with that error and leaves the world as it was, so no request was sent;
  Destroy sends no request either, and fails with that error whenever it gets as far as
  interpreting the document.
\<close>

theorem unsupported_provider_fails:
  assumes "Provider name body \<in> set doc" and "strip quote name \<noteq> ''digitalocean''"
  shows "walk init doc = Inl UnsupportedProviderError \<and>
         terraform_apply a w doc = Some (Inl UnsupportedProviderError, w) \<and>
         snd (terraform_destroy a w doc) = w \<and>
         (\<forall>state_info. load_state_file w = Inr (Some state_info) \<and> state_info \<noteq> [] \<longrightarrow>
            terraform_destroy a w doc = (Inl UnsupportedProviderError, w))"
proof -
  have "walk init doc = Inl UnsupportedProviderError"
    using assms by (rule walk_unsupported)
  then show ?thesis
    by (auto simp: terraform_apply_def terraform_destroy_def split: sum.splits option.splits)
qed

theorem unsupported_provider_fails_witness:
  "Provider (quoted ''aws'') [(''token'', quoted ''abc123'')]
     \<in> set [Variable (quoted ''token'') [(''default'', quoted ''abc123'')],
            Provider (quoted ''aws'') [(''token'', quoted ''abc123'')],
            Resource (quoted ''digitalocean_droplet'') (quoted ''web'') [(''name'', quoted ''x'')]] \<and>
   strip quote (quoted ''aws'') \<noteq> ''digitalocean'' \<and>
   terraform_apply ready_api empty_world
     [Variable (quoted ''token'') [(''default'', quoted ''abc123'')],
      Provider (quoted ''aws'') [(''token'', quoted ''abc123'')],
      Resource (quoted ''digitalocean_droplet'') (quoted ''web'') [(''name'', quoted ''x'')]]
     = Some (Inl UnsupportedProviderError, empty_world)"
  using unsupported_provider_fails [of "quoted ''aws''" "[(''token'', quoted ''abc123'')]"
          "[Variable (quoted ''token'') [(''default'', quoted ''abc123'')],
            Provider (quoted ''aws'') [(''token'', quoted ''abc123'')],
            Resource (quoted ''digitalocean_droplet'') (quoted ''web'') [(''name'', quoted ''x'')]]"
          ready_api empty_world]
  by (simp add: quoted_def strip_def)

text \<open>
  C3, as stated, fails: a document whose provider block declares no \<^verbatim>\<open>token\<close> key and
  is of another type than \<^verbatim>\<open>digitalocean\<close> makes Apply fail with
  \<open>UnsupportedProviderError\<close>, raised during the walk, not with \<open>MissingTokenError\<close>.
\<close>

theorem apply_missing_token_counterexample:
  "terraform_apply ready_api empty_world [Provider (quoted ''aws'') []]
     = Some (Inl UnsupportedProviderError, empty_world)"
  by (simp add: terraform_apply_def init_def enterProvider_def quoted_def strip_def)

text \<open>
  C3, amended. For every document whose provider blocks are all of the supported type and
  none of which declares a \<^verbatim>\<open>token\<close> key, Apply fails with \<open>MissingTokenError\<close> and
  leaves the world as it was: the create request was never sent.
\<close>

theorem apply_missing_token:
  assumes "\<forall>name body. Provider name body \<in> set doc \<longrightarrow>
      strip quote name = ''digitalocean'' \<and> ''token'' \<notin> fst ` set body"
  shows "terraform_apply a w doc = Some (Inl MissingTokenError, w)"
proof -
  obtain l where l: "walk init doc = Inr l" "provider_token_expr l = provider_token_expr init"
    using walk_no_token [OF assms, of init] by blast
  then have "resolve_token l = Inl MissingTokenError"
    by (simp add: resolve_token_def init_def)
  with l show ?thesis by (simp add: terraform_apply_def)
qed

theorem apply_missing_token_witness:
  "terraform_apply ready_api empty_world
     [Provider (quoted ''digitalocean'') [(''region'', quoted ''nyc3'')],
      Resource (quoted ''digitalocean_droplet'') (quoted ''web'') [(''name'', quoted ''x'')]]
     = Some (Inl MissingTokenError, empty_world)"
proof -
  have h: "\<forall>name body.
      Provider name body \<in> set [Provider (quoted ''digitalocean'') [(''region'', quoted ''nyc3'')],
                                Resource (quoted ''digitalocean_droplet'') (quoted ''web'')
                                  [(''name'', quoted ''x'')]] \<longrightarrow>
      strip quote name = ''digitalocean'' \<and> ''token'' \<notin> fst ` set body"
    by (simp add: quoted_def strip_def)
  from apply_missing_token [OF h, of ready_api empty_world] show ?thesis .
qed

text \<open>
  C5, as stated, fails: the token is resolved before the resource configuration is looked
  at, so a document with no matching resource block and no token makes Apply fail with
  \<open>MissingTokenError\<close>.
\<close>

theorem apply_missing_resource_counterexample:
  "terraform_apply ready_api empty_world
     [Provider (quoted ''digitalocean'') [],
      Resource (quoted ''aws_instance'') (quoted ''web'') [(''name'', quoted ''x'')]]
     = Some (Inl MissingTokenError, empty_world)"
  by (simp add: terraform_apply_def init_def enterProvider_def enterResource_def quoted_def
        strip_def resolve_token_def)

text \<open>
  C5, amended. A resource block of another type than \<^verbatim>\<open>digitalocean_droplet\<close> leaves the
  listener as it was; after the walk of a document with no matching resource block the
  configuration is empty; and Apply on such a document fails without sending a request,
  with \<open>MissingResourceError\<close> when the walk and the token resolution succeed and with
  their error otherwise.
\<close>

theorem apply_missing_resource:
  assumes "\<forall>t n body. Resource t n body \<in> set doc \<longrightarrow> strip quote t \<noteq> ''digitalocean_droplet''"
  shows "(\<forall>l t n body. strip quote t \<noteq> ''digitalocean_droplet'' \<longrightarrow> enterResource l t n body = l) \<and>
         (\<forall>l. walk init doc = Inr l \<longrightarrow> droplet_config l = []) \<and>
         terraform_apply a w doc =
           Some (Inl (case walk init doc of
                        Inl e \<Rightarrow> e
                      | Inr l \<Rightarrow> (case resolve_token l of
                                   Inl e \<Rightarrow> e
                                 | Inr token \<Rightarrow> MissingResourceError)), w)"
proof -
  have "droplet_config l = []" if "walk init doc = Inr l" for l
    using walk_no_droplet [OF assms that] by (simp add: init_def)
  then show ?thesis
    by (auto simp: terraform_apply_def enterResource_other split: sum.splits)
qed

theorem apply_missing_resource_witness:
  "terraform_apply ready_api empty_world
     [Provider (quoted ''digitalocean'') [(''token'', quoted ''abc123'')],
      Resource (quoted ''aws_instance'') (quoted ''web'') [(''name'', quoted ''x'')]]
     = Some (Inl MissingResourceError, empty_world)"
proof -
  have h: "\<forall>t n body.
      Resource t n body \<in> set [Provider (quoted ''digitalocean'') [(''token'', quoted ''abc123'')],
                                Resource (quoted ''aws_instance'') (quoted ''web'')
                                  [(''name'', quoted ''x'')]] \<longrightarrow>
      strip quote t \<noteq> ''digitalocean_droplet''"
    by (simp add: quoted_def strip_def)
  have "walk init [Provider (quoted ''digitalocean'') [(''token'', quoted ''abc123'')],
                   Resource (quoted ''aws_instance'') (quoted ''web'') [(''name'', quoted ''x'')]]
          = Inr \<lparr>variables = [], provider_token_expr = Some (quoted ''abc123''),
                 droplet_config = []\<rparr>"
    by (simp add: init_def enterProvider_def enterResource_def quoted_def strip_def)
  moreover have "resolve_token \<lparr>variables = [], provider_token_expr = Some (quoted ''abc123''),
                                droplet_config = []\<rparr> = Inr ''abc123''"
    by (simp add: resolve_token_def quoted_def strip_def startswith_def)
  ultimately show ?thesis
    using apply_missing_resource [OF h, of ready_api empty_world] by simp
qed

subsection \<open>Overwriting on duplicates\<close>

lemma fold_update_other:
  "k \<notin> fst ` set body \<Longrightarrow>
     map_of (fold (\<lambda>(key, expr) cfg. AList.update key (f expr) cfg) body cfg) k = map_of cfg k"
  by (induction body arbitrary: cfg) (auto simp: update_conv')

lemma fold_default_absent:
  "''default'' \<notin> fst ` set body \<Longrightarrow>
     fold (\<lambda>(key, expr) vars. if key = ''default'' then AList.update n (f expr) vars else vars)
          body vars = vars"
  by (induction body arbitrary: vars) auto

lemma fold_default_other:
  "m \<noteq> n \<Longrightarrow>
     map_of (fold (\<lambda>(key, expr) vars.
                     if key = ''default'' then AList.update n (f expr) vars else vars)
                  body vars) m = map_of vars m"
  by (induction body arbitrary: vars) (auto simp: update_conv')

lemma enter_config_key:
  assumes "enter l b = Inr l1"
    and "\<forall>t n body. b = Resource t n body \<and> strip quote t = ''digitalocean_droplet''
           \<longrightarrow> k \<notin> fst ` set body"
  shows "map_of (droplet_config l1) k = map_of (droplet_config l) k"
proof (cases b)
  case (Variable n body)
  with assms(1) show ?thesis by (auto simp: enterVariable_def)
next
  case (Provider n body)
  with assms(1) show ?thesis by (auto simp: enterProvider_def split: if_splits)
next
  case (Resource t n body)
  with assms show ?thesis by (auto simp: enterResource_def fold_update_other)
qed

lemma walk_config_key:
  "walk l doc = Inr l' \<Longrightarrow>
   \<forall>t n body. Resource t n body \<in> set doc \<and> strip quote t = ''digitalocean_droplet''
      \<longrightarrow> k \<notin> fst ` set body \<Longrightarrow>
   map_of (droplet_config l') k = map_of (droplet_config l) k"
proof (induction doc arbitrary: l)
  case Nil
  then show ?case by simp
next
  case (Cons b bs)
  from Cons.prems(1) obtain l1 where l1: "enter l b = Inr l1" "walk l1 bs = Inr l'"
    by (auto split: sum.splits)
  have "map_of (droplet_config l1) k = map_of (droplet_config l) k"
    using l1(1) Cons.prems(2) by (intro enter_config_key [of l b]) auto
  moreover have "\<forall>t n body. Resource t n body \<in> set bs \<and> strip quote t = ''digitalocean_droplet''
                   \<longrightarrow> k \<notin> fst ` set body"
    using Cons.prems(2) by auto
  from Cons.IH [OF l1(2) this]
  have "map_of (droplet_config l') k = map_of (droplet_config l1) k" .
  ultimately show ?case by simp
qed

lemma enter_variable_key:
  assumes "enter l b = Inr l1"
    and "\<forall>nt body. b = Variable nt body \<and> strip quote nt = m \<longrightarrow> ''default'' \<notin> fst ` set body"
  shows "map_of (variables l1) m = map_of (variables l) m"
proof (cases b)
  case (Variable nt body)
  show ?thesis
  proof (cases "strip quote nt = m")
    case True
    with assms Variable show ?thesis by (auto simp: enterVariable_def fold_default_absent)
  next
    case False
    with assms(1) Variable show ?thesis by (auto simp: enterVariable_def fold_default_other)
  qed
next
  case (Provider n body)
  with assms(1) show ?thesis by (auto simp: enterProvider_def split: if_splits)
next
  case (Resource t n body)
  with assms(1) show ?thesis by (auto simp: enterResource_def)
qed

lemma walk_variable_key:
  "walk l doc = Inr l' \<Longrightarrow>
   \<forall>nt body. Variable nt body \<in> set doc \<and> strip quote nt = m
      \<longrightarrow> ''default'' \<notin> fst ` set body \<Longrightarrow>
   map_of (variables l') m = map_of (variables l) m"
proof (induction doc arbitrary: l)
  case Nil
  then show ?case by simp
next
  case (Cons b bs)
  from Cons.prems(1) obtain l1 where l1: "enter l b = Inr l1" "walk l1 bs = Inr l'"
    by (auto split: sum.splits)
  have "map_of (variables l1) m = map_of (variables l) m"
    using l1(1) Cons.prems(2) by (intro enter_variable_key [of l b]) auto
  moreover have "\<forall>nt body. Variable nt body \<in> set bs \<and> strip quote nt = m
                   \<longrightarrow> ''default'' \<notin> fst ` set body"
    using Cons.prems(2) by auto
  from Cons.IH [OF l1(2) this]
  have "map_of (variables l') m = map_of (variables l1) m" .
  ultimately show ?case by simp
qed

lemma resource_last_wins:
  assumes "walk l (front @ Resource t n (b1 @ (k, v) # b2) # back) = Inr l'"
    and "strip quote t = ''digitalocean_droplet''"
    and "k \<notin> fst ` set b2"
    and "\<forall>t' n' body'. Resource t' n' body' \<in> set back \<and> strip quote t' = ''digitalocean_droplet''
            \<longrightarrow> k \<notin> fst ` set body'"
  shows "map_of (droplet_config l') k = Some (strip quote v)"
proof -
  from assms(1) obtain l0 l1 where
    l1: "enter l0 (Resource t n (b1 @ (k, v) # b2)) = Inr l1" and rest: "walk l1 back = Inr l'"
    by (rule walk_split)
  from l1 assms(2,3) have "map_of (droplet_config l1) k = Some (strip quote v)"
    by (auto simp: enterResource_def fold_update_other update_conv')
  with walk_config_key [OF rest assms(4)] show ?thesis by simp
qed

lemma variable_last_wins:
  assumes "walk l (front @ Variable nt (b1 @ (''default'', e) # b2) # back) = Inr l'"
    and "''default'' \<notin> fst ` set b2"
    and "\<forall>nt' body'. Variable nt' body' \<in> set back \<and> strip quote nt' = strip quote nt
            \<longrightarrow> ''default'' \<notin> fst ` set body'"
  shows "map_of (variables l') (strip quote nt) = Some (strip quote e)"
proof -
  from assms(1) obtain l0 l1 where
    l1: "enter l0 (Variable nt (b1 @ (''default'', e) # b2)) = Inr l1" and rest: "walk l1 back = Inr l'"
    by (rule walk_split)
  from l1 assms(2) have "map_of (variables l1) (strip quote nt) = Some (strip quote e)"
    by (auto simp: enterVariable_def fold_default_absent update_conv')
  with walk_variable_key [OF rest assms(3)] show ?thesis by simp
qed

text \<open>
  C8. Last write wins. In a document that the walk accepts, take a matching resource block
  and the last occurrence \<open>(k, v)\<close> of a key in its body, no later matching resource block
  having that key: the configuration holds the value of that occurrence for \<open>k\<close>, whatever
  came before it. And take a variable block and the last \<^verbatim>\<open>default\<close> of its body, no later
  variable block of the same name having a \<^verbatim>\<open>default\<close>: the table holds that default for
  the name, whatever blocks declared the name before.
\<close>

theorem last_write_wins:
  "(walk init (front @ Resource t n (b1 @ (k, v) # b2) # back) = Inr l \<and>
    strip quote t = ''digitalocean_droplet'' \<and>
    k \<notin> fst ` set b2 \<and>
    (\<forall>t' n' body'. Resource t' n' body' \<in> set back \<and> strip quote t' = ''digitalocean_droplet''
        \<longrightarrow> k \<notin> fst ` set body')
    \<longrightarrow> map_of (droplet_config l) k = Some (strip quote v)) \<and>
   (walk init (front' @ Variable nt (c1 @ (''default'', e) # c2) # back') = Inr l' \<and>
    ''default'' \<notin> fst ` set c2 \<and>
    (\<forall>nt' body'. Variable nt' body' \<in> set back' \<and> strip quote nt' = strip quote nt
        \<longrightarrow> ''default'' \<notin> fst ` set body')
    \<longrightarrow> map_of (variables l') (strip quote nt) = Some (strip quote e))"
  using resource_last_wins [of init front t n b1 k v b2 "back" l]
        variable_last_wins [of init front' nt c1 e c2 "back'" l']
  by blast

theorem last_write_wins_witness:
  "walk init ([] @ Resource (quoted ''digitalocean_droplet'') (quoted ''web'')
                     ([(''size'', quoted ''small'')] @ (''size'', quoted ''large'') #
                      [(''name'', quoted ''x'')]) # [])
     = Inr \<lparr>variables = [], provider_token_expr = None,
            droplet_config = [(''size'', ''large''), (''name'', ''x'')]\<rparr> \<and>
   map_of [(''size'', ''large''), (''name'', ''x'')] ''size'' = Some (strip quote (quoted ''large'')) \<and>
   walk init ([Variable (quoted ''token'') [(''default'', quoted ''first'')]] @
              Variable (quoted ''token'') ([] @ (''default'', quoted ''second'') # []) #
              [Variable (quoted ''token'') [(''description'', quoted ''no default'')]])
     = Inr \<lparr>variables = [(''token'', ''second'')], provider_token_expr = None,
            droplet_config = []\<rparr> \<and>
   map_of [(''token'', ''second'')] (strip quote (quoted ''token''))
     = Some (strip quote (quoted ''second''))"
proof -
  have r: "walk init ([] @ Resource (quoted ''digitalocean_droplet'') (quoted ''web'')
                     ([(''size'', quoted ''small'')] @ (''size'', quoted ''large'') #
                      [(''name'', quoted ''x'')]) # [])
     = Inr \<lparr>variables = [], provider_token_expr = None,
            droplet_config = [(''size'', ''large''), (''name'', ''x'')]\<rparr>"
    by (simp add: init_def enterResource_def quoted_def strip_def)
  have v: "walk init ([Variable (quoted ''token'') [(''default'', quoted ''first'')]] @
              Variable (quoted ''token'') ([] @ (''default'', quoted ''second'') # []) #
              [Variable (quoted ''token'') [(''description'', quoted ''no default'')]])
     = Inr \<lparr>variables = [(''token'', ''second'')], provider_token_expr = None,
            droplet_config = []\<rparr>"
    by (simp add: init_def enterVariable_def quoted_def strip_def)
  have t: "strip quote (quoted ''digitalocean_droplet'') = ''digitalocean_droplet''"
    by (simp add: quoted_def strip_def)
  have b: "\<forall>nt' body'.
      Variable nt' body' \<in> set [Variable (quoted ''token'') [(''description'', quoted ''no default'')]] \<and>
      strip quote nt' = strip quote (quoted ''token'') \<longrightarrow> ''default'' \<notin> fst ` set body'"
    by simp
  from last_write_wins [of "[]" "quoted ''digitalocean_droplet''" "quoted ''web''"
         "[(''size'', quoted ''small'')]" "''size''" "quoted ''large''" "[(''name'', quoted ''x'')]" "[]"
         "\<lparr>variables = [], provider_token_expr = None,
            droplet_config = [(''size'', ''large''), (''name'', ''x'')]\<rparr>"
         "[Variable (quoted ''token'') [(''default'', quoted ''first'')]]" "quoted ''token''" "[]"
         "quoted ''second''" "[]"
         "[Variable (quoted ''token'') [(''description'', quoted ''no default'')]]"
         "\<lparr>variables = [(''token'', ''second'')], provider_token_expr = None,
            droplet_config = []\<rparr>"]
       r v t b
  show ?thesis by simp
qed

subsection \<open>The state file\<close>

text \<open>
  C1, as stated, fails: \<^verbatim>\<open>load_state_file\<close> returns the id, the name and the address
  only. The region, the size and the image that were saved are not in the record it
  returns, which is not the record saved.
\<close>

theorem save_load_counterexample:
  "saved_attributes sample_config 42 ''203.0.113.7'' =
     Inr [(''id'', JStr ''42''), (''name'', JStr ''x''), (''region'', JStr ''nyc3''),
          (''size'', JStr ''s-1vcpu-1gb''), (''image'', JStr ''ubuntu-22-04-x64''),
          (''ipv4_address'', JStr ''203.0.113.7'')] \<and>
   save_then_load sample_config 42 ''203.0.113.7'' empty_world =
     Inr (Some [(''id'', JStr ''42''), (''name'', JStr ''x''), (''ip'', JStr ''203.0.113.7'')]) \<and>
   map_of [(''id'', JStr ''42''), (''name'', JStr ''x''), (''ip'', JStr ''203.0.113.7'')] ''region''
     = None \<and>
   map_of [(''id'', JStr ''42''), (''name'', JStr ''x''), (''ip'', JStr ''203.0.113.7'')] ''size''
     = None \<and>
   map_of [(''id'', JStr ''42''), (''name'', JStr ''x''), (''ip'', JStr ''203.0.113.7'')] ''image''
     = None"
  by (simp add: saved_attributes_def save_then_load_def save_state_file_def load_state_file_def
        config_get_def sample_config_def empty_world_def str_def str_nat.simps)

text \<open>
  C1, amended. For a configuration that has a name, a region, a size and an image, save
  writes the state file with all six attributes (the remote id as its decimal text, the
  name, the region, the size, the image and the network address); saving and then loading
  returns a record of three fields, the id, the name and the address, each as saved. And
  after the state file is removed, load returns "absent".
\<close>

theorem save_load_round_trip:
  assumes "map_of config ''name'' = Some name_v"
    and "map_of config ''region'' = Some region_v"
    and "map_of config ''size'' = Some size_v"
    and "map_of config ''image'' = Some image_v"
  shows "save_state_file config droplet_id ip w =
           Inr (w\<lparr>tfstate := Some (JObj
             [(''version'', JInt 4),
              (''terraform_version'', JStr ''custom''),
              (''resources'', JList [JObj
                 [(''mode'', JStr ''managed''),
                  (''type'', JStr ''digitalocean_droplet''),
                  (''name'', JStr ''web''),
                  (''provider'', JStr ''digitalocean''),
                  (''instances'', JList [JObj [(''attributes'', JObj
                     [(''id'', JStr (str droplet_id)),
                      (''name'', JStr name_v),
                      (''region'', JStr region_v),
                      (''size'', JStr size_v),
                      (''image'', JStr image_v),
                      (''ipv4_address'', JStr ip)])]])]])])\<rparr>) \<and>
         save_then_load config droplet_id ip w =
           Inr (Some [(''id'', JStr (str droplet_id)), (''name'', JStr name_v), (''ip'', JStr ip)]) \<and>
         load_state_file (remove_state_file w') = Inr None"
  using assms
  by (simp add: saved_attributes_def save_then_load_def save_state_file_def load_state_file_def
        config_get_def remove_state_file_def)

theorem save_load_round_trip_witness:
  "map_of sample_config ''name'' = Some ''x'' \<and>
   map_of sample_config ''region'' = Some ''nyc3'' \<and>
   map_of sample_config ''size'' = Some ''s-1vcpu-1gb'' \<and>
   map_of sample_config ''image'' = Some ''ubuntu-22-04-x64'' \<and>
   save_state_file sample_config 42 ''203.0.113.7'' empty_world =
     Inr (empty_world\<lparr>tfstate := Some (JObj
       [(''version'', JInt 4),
        (''terraform_version'', JStr ''custom''),
        (''resources'', JList [JObj
           [(''mode'', JStr ''managed''),
            (''type'', JStr ''digitalocean_droplet''),
            (''name'', JStr ''web''),
            (''provider'', JStr ''digitalocean''),
            (''instances'', JList [JObj [(''attributes'', JObj
               [(''id'', JStr ''42''),
                (''name'', JStr ''x''),
                (''region'', JStr ''nyc3''),
                (''size'', JStr ''s-1vcpu-1gb''),
                (''image'', JStr ''ubuntu-22-04-x64''),
                (''ipv4_address'', JStr ''203.0.113.7'')])]])]])])\<rparr>) \<and>
   save_then_load sample_config 42 ''203.0.113.7'' empty_world =
     Inr (Some [(''id'', JStr ''42''), (''name'', JStr ''x''), (''ip'', JStr ''203.0.113.7'')]) \<and>
   load_state_file (remove_state_file empty_world) = Inr None"
proof -
  have h: "map_of sample_config ''name'' = Some ''x''"
    "map_of sample_config ''region'' = Some ''nyc3''"
    "map_of sample_config ''size'' = Some ''s-1vcpu-1gb''"
    "map_of sample_config ''image'' = Some ''ubuntu-22-04-x64''"
    by (simp_all add: sample_config_def)
  have "str 42 = ''42''"
    by (simp add: str_def str_nat.simps)
  with h save_load_round_trip [OF h, of 42 "''203.0.113.7''" empty_world empty_world]
  show ?thesis by simp
qed

text \<open>
  C6. When no state record exists, that is when load returns "absent", which it does when
  the state file does not exist and also when the file lists no droplet, Destroy reports
  that there is nothing to destroy, whatever the document and the collaborator are: it
  succeeds and leaves the world as it was, so the document was not interpreted and no
  delete request was sent.
\<close>

theorem destroy_without_state:
  "(tfstate w = None \<longrightarrow> load_state_file w = Inr None) \<and>
   (load_state_file w = Inr None \<longrightarrow> terraform_destroy a w doc = (Inr NothingToDestroy, w))"
  by (simp add: load_state_file_def terraform_destroy_def)

theorem destroy_without_state_witness:
  "tfstate empty_world = None \<and>
   load_state_file empty_world = Inr None \<and>
   terraform_destroy ready_api empty_world [Provider (quoted ''aws'') []]
     = (Inr NothingToDestroy, empty_world) \<and>
   load_state_file
     \<lparr>tfstate = Some (JObj [(''version'', JInt 4),
                             (''resources'', JList [JObj [(''type'', JStr ''aws_instance'')]])]),
      calls = []\<rparr> = Inr None \<and>
   terraform_destroy ready_api
     \<lparr>tfstate = Some (JObj [(''version'', JInt 4),
                             (''resources'', JList [JObj [(''type'', JStr ''aws_instance'')]])]),
      calls = []\<rparr> sample_document
     = (Inr NothingToDestroy,
        \<lparr>tfstate = Some (JObj [(''version'', JInt 4),
                                (''resources'', JList [JObj [(''type'', JStr ''aws_instance'')]])]),
         calls = []\<rparr>)"
proof -
  have h: "tfstate empty_world = None"
    by (simp add: empty_world_def)
  have g: "load_state_file
     \<lparr>tfstate = Some (JObj [(''version'', JInt 4),
                             (''resources'', JList [JObj [(''type'', JStr ''aws_instance'')]])]),
      calls = []\<rparr> = Inr None"
    by (simp add: load_state_file_def)
  from h g
    destroy_without_state [of empty_world ready_api "[Provider (quoted ''aws'') []]"]
    destroy_without_state [of
      "\<lparr>tfstate = Some (JObj [(''version'', JInt 4),
                              (''resources'', JList [JObj [(''type'', JStr ''aws_instance'')]])]),
        calls = []\<rparr>" ready_api sample_document]
  show ?thesis by simp
qed

subsection \<open>The polling loop\<close>

text \<open>
  When the loop returns, some read ended it: every read before answered without a public
  address, and that read either failed or answered with one.
\<close>

lemma poll_Some_cases:
  assumes major: "poll a tok i n w = Some y"
  shows "\<exists>m\<ge>n. (\<forall>k. n \<le> k \<and> k < m \<longrightarrow> (\<exists>nets. get a tok i k = Inr nets \<and> public_ips nets = [])) \<and>
          (case get a tok i m of
             Inl e \<Rightarrow> fst y = Inl e
           | Inr nets \<Rightarrow> (\<exists>ip rest. public_ips nets = ip # rest \<and> fst y = Inr ip))"
proof (rule poll.raw_induct [where P = "\<lambda>a tok i n w y.
         \<exists>m\<ge>n. (\<forall>k. n \<le> k \<and> k < m \<longrightarrow> (\<exists>nets. get a tok i k = Inr nets \<and> public_ips nets = [])) \<and>
          (case get a tok i m of
             Inl e \<Rightarrow> fst y = Inl e
           | Inr nets \<Rightarrow> (\<exists>ip rest. public_ips nets = ip # rest \<and> fst y = Inr ip))", OF _ major],
       goal_cases)
  case (1 poll' a tok i n w y)
  show ?case
  proof (cases "get a tok i n")
    case (Inl e)
    with 1(2) have "fst y = Inl e" by auto
    with Inl show ?thesis by (intro exI [of _ n]) auto
  next
    case (Inr nets)
    show ?thesis
    proof (cases "public_ips nets")
      case Nil
      with Inr 1(2) have "poll' a tok i (Suc n) (w\<lparr>calls := calls w @ [Get tok i]\<rparr>) = Some y"
        by simp
      from 1(1) [OF this] obtain m where m: "Suc n \<le> m"
        "\<forall>k. Suc n \<le> k \<and> k < m \<longrightarrow> (\<exists>nets. get a tok i k = Inr nets \<and> public_ips nets = [])"
        "case get a tok i m of
             Inl e \<Rightarrow> fst y = Inl e
           | Inr nets \<Rightarrow> (\<exists>ip rest. public_ips nets = ip # rest \<and> fst y = Inr ip)"
        by blast
      have "\<forall>k. n \<le> k \<and> k < m \<longrightarrow> (\<exists>nets. get a tok i k = Inr nets \<and> public_ips nets = [])"
      proof (intro allI impI)
        fix k assume k: "n \<le> k \<and> k < m"
        show "\<exists>nets. get a tok i k = Inr nets \<and> public_ips nets = []"
        proof (cases "k = n")
          case True
          with Inr Nil show ?thesis by simp
        next
          case False
          with k have "Suc n \<le> k \<and> k < m" by simp
          with m(2) show ?thesis by blast
        qed
      qed
      with m(1,3) show ?thesis by (intro exI [of _ m]) auto
    next
      case (Cons ip rest)
      with Inr 1(2) have "fst y = Inr ip" by auto
      with Inr Cons show ?thesis by (intro exI [of _ n]) auto
    qed
  qed
qed

lemma poll_ready:
  assumes "get a tok i (n + d) = Inr nets" and "public_ips nets = ip # rest"
    and "\<forall>k. n \<le> k \<and> k < n + d \<longrightarrow> (\<exists>nets'. get a tok i k = Inr nets' \<and> public_ips nets' = [])"
  shows "\<exists>w'. poll a tok i n w = Some (Inr ip, w')"
  using assms
proof (induction d arbitrary: n w)
  case 0
  then show ?case by (subst poll.simps) simp
next
  case (Suc d)
  have "n \<le> n \<and> n < n + Suc d" by simp
  with Suc.prems(3) obtain nets' where n': "get a tok i n = Inr nets'" "public_ips nets' = []"
    by blast
  have "\<exists>w'. poll a tok i (Suc n) (w\<lparr>calls := calls w @ [Get tok i]\<rparr>) = Some (Inr ip, w')"
    using Suc.prems by (intro Suc.IH) auto
  with n' show ?case by (subst poll.simps) simp
qed

lemma poll_stalled:
  assumes "\<forall>n. \<exists>nets. get a tok i n = Inr nets \<and> public_ips nets = []"
  shows "poll a tok i n w = None"
proof (cases "poll a tok i n w")
  case None
  then show ?thesis .
next
  case (Some y)
  from poll_Some_cases [OF Some] obtain m where
    "case get a tok i m of
       Inl e \<Rightarrow> fst y = Inl e
     | Inr nets \<Rightarrow> (\<exists>ip rest. public_ips nets = ip # rest \<and> fst y = Inr ip)"
    by blast
  moreover from assms obtain nets where "get a tok i m = Inr nets" "public_ips nets = []"
    by blast
  ultimately show ?thesis by simp
qed

lemma poll_proceeds_iff:
  "(\<exists>ip w'. poll a tok i 0 w = Some (Inr ip, w')) =
   (\<exists>m nets. get a tok i m = Inr nets \<and> public_ips nets \<noteq> [] \<and>
              (\<forall>k<m. \<exists>nets'. get a tok i k = Inr nets'))"
proof
  assume "\<exists>ip w'. poll a tok i 0 w = Some (Inr ip, w')"
  then obtain ip w' where p: "poll a tok i 0 w = Some (Inr ip, w')" by blast
  from poll_Some_cases [OF p] obtain m where
    m: "\<forall>k. 0 \<le> k \<and> k < m \<longrightarrow> (\<exists>nets. get a tok i k = Inr nets \<and> public_ips nets = [])"
       "case get a tok i m of
          Inl e \<Rightarrow> fst (Inr ip :: error + string, w') = Inl e
        | Inr nets \<Rightarrow> (\<exists>ip' rest. public_ips nets = ip' # rest \<and> fst (Inr ip :: error + string, w') = Inr ip')"
    by blast
  from m(2) obtain nets where "get a tok i m = Inr nets" "public_ips nets \<noteq> []"
    by (auto split: sum.splits)
  with m(1) show "\<exists>m nets. get a tok i m = Inr nets \<and> public_ips nets \<noteq> [] \<and>
              (\<forall>k<m. \<exists>nets'. get a tok i k = Inr nets')"
    by blast
next
  assume "\<exists>m nets. get a tok i m = Inr nets \<and> public_ips nets \<noteq> [] \<and>
              (\<forall>k<m. \<exists>nets'. get a tok i k = Inr nets')"
  then obtain m nets where m: "get a tok i m = Inr nets" "public_ips nets \<noteq> []"
    "\<forall>k<m. \<exists>nets'. get a tok i k = Inr nets'" by blast
  define ready where "ready k = (\<exists>nets. get a tok i k = Inr nets \<and> public_ips nets \<noteq> [])" for k
  define m0 where "m0 = (LEAST k. ready k)"
  have "ready m" using m by (auto simp: ready_def)
  then have r0: "ready m0" and le: "m0 \<le> m"
    unfolding m0_def by (rule LeastI, rule Least_le)
  from r0 obtain nets0 ip rest where n0: "get a tok i m0 = Inr nets0" "public_ips nets0 = ip # rest"
    by (auto simp: ready_def neq_Nil_conv)
  have "\<forall>k. 0 \<le> k \<and> k < 0 + m0 \<longrightarrow> (\<exists>nets'. get a tok i k = Inr nets' \<and> public_ips nets' = [])"
  proof (intro allI impI)
    fix k assume "0 \<le> k \<and> k < 0 + m0"
    then have k: "k < m0" by simp
    with le have "k < m" by simp
    with m(3) obtain nets' where g: "get a tok i k = Inr nets'" by blast
    from k have "\<not> ready k" unfolding m0_def by (rule not_less_Least)
    with g show "\<exists>nets'. get a tok i k = Inr nets' \<and> public_ips nets' = []"
      by (simp add: ready_def)
  qed
  from poll_ready [of a tok i 0 m0 nets0 ip rest w, OF _ n0(2) this] n0(1)
  show "\<exists>ip w'. poll a tok i 0 w = Some (Inr ip, w')" by auto
qed

lemma apply_stalled:
  assumes "\<forall>n. \<exists>nets. get a tok i n = Inr nets \<and> public_ips nets = []"
    and "walk init doc = Inr l" and "resolve_token l = Inr tok" and "droplet_config l \<noteq> []"
    and "build_payload (droplet_config l) = Inr pl" and "post a tok pl = Inr i"
  shows "terraform_apply a w doc = None"
  using assms(2-) poll_stalled [OF assms(1)]
  by (simp add: terraform_apply_def create_droplet_def)

lemma save_after_payload:
  assumes "build_payload config = Inr pl"
  shows "\<exists>w'. save_state_file config droplet_id ip w = Inr w'"
  using assms
  by (auto simp: build_payload_def save_state_file_def saved_attributes_def split: sum.splits)

lemma create_proceeds_iff:
  assumes "build_payload config = Inr pl" and "post a tok pl = Inr i"
  shows "(\<exists>ip w'. create_droplet a tok config w = Some (Inr (i, ip), w')) =
         (\<exists>m nets. get a tok i m = Inr nets \<and> public_ips nets \<noteq> [] \<and>
                    (\<forall>k<m. \<exists>nets'. get a tok i k = Inr nets'))"
proof -
  have "(\<exists>ip w'. create_droplet a tok config w = Some (Inr (i, ip), w')) =
        (\<exists>ip w'. poll a tok i 0 (w\<lparr>calls := calls w @ [Post tok pl]\<rparr>) = Some (Inr ip, w'))"
    using assms by (auto simp: create_droplet_def split: option.splits sum.splits)
  then show ?thesis
    by (simp only: poll_proceeds_iff)
qed

lemma apply_proceeds_iff:
  assumes "walk init doc = Inr l" and "resolve_token l = Inr tok" and "droplet_config l \<noteq> []"
    and "build_payload (droplet_config l) = Inr pl" and "post a tok pl = Inr i"
  shows "(\<exists>ip w'. terraform_apply a w doc = Some (Inr (ApplyComplete ip), w')) =
         (\<exists>m nets. get a tok i m = Inr nets \<and> public_ips nets \<noteq> [] \<and>
                    (\<forall>k<m. \<exists>nets'. get a tok i k = Inr nets'))"
proof -
  have "(\<exists>ip w'. terraform_apply a w doc = Some (Inr (ApplyComplete ip), w')) =
        (\<exists>ip w'. create_droplet a tok (droplet_config l) w = Some (Inr (i, ip), w'))"
  proof
    assume "\<exists>ip w'. terraform_apply a w doc = Some (Inr (ApplyComplete ip), w')"
    then show "\<exists>ip w'. create_droplet a tok (droplet_config l) w = Some (Inr (i, ip), w')"
      using assms
      by (auto simp: terraform_apply_def create_droplet_def split: option.splits sum.splits)
  next
    assume "\<exists>ip w'. create_droplet a tok (droplet_config l) w = Some (Inr (i, ip), w')"
    then obtain ip w' where c: "create_droplet a tok (droplet_config l) w = Some (Inr (i, ip), w')"
      by blast
    obtain w'' where "save_state_file (droplet_config l) i ip w' = Inr w''"
      using save_after_payload [OF assms(4)] by blast
    with c assms(1-3) have "terraform_apply a w doc = Some (Inr (ApplyComplete ip), w'')"
      by (simp add: terraform_apply_def)
    then show "\<exists>ip w'. terraform_apply a w doc = Some (Inr (ApplyComplete ip), w')" by blast
  qed
  with create_proceeds_iff [OF assms(4,5)] show ?thesis by simp
qed

text \<open>
  C7. The polling loop has no bound. With a collaborator every read of which answers
  without a public address, the loop does not return, and neither does an Apply that
  reaches it (the walk, the token, the configuration and the create request having
  succeeded). The loop is left with an address exactly when some read answers with a
  non-empty list of public addresses, no read before it having failed; and for an Apply
  that reaches the loop, \<^verbatim>\<open>create_droplet\<close> returns the droplet and its address, and
  Apply goes on to save the state and complete, exactly in that case.
\<close>

theorem polling_unbounded:
  "((\<forall>n. \<exists>nets. get a tok i n = Inr nets \<and> public_ips nets = []) \<longrightarrow>
      poll a tok i 0 w = None \<and>
      (walk init doc = Inr l \<and> resolve_token l = Inr tok \<and> droplet_config l \<noteq> [] \<and>
       build_payload (droplet_config l) = Inr pl \<and> post a tok pl = Inr i
         \<longrightarrow> terraform_apply a w doc = None)) \<and>
   ((\<exists>ip w'. poll a tok i 0 w = Some (Inr ip, w')) =
    (\<exists>m nets. get a tok i m = Inr nets \<and> public_ips nets \<noteq> [] \<and>
               (\<forall>k<m. \<exists>nets'. get a tok i k = Inr nets'))) \<and>
   (walk init doc = Inr l \<and> resolve_token l = Inr tok \<and> droplet_config l \<noteq> [] \<and>
    build_payload (droplet_config l) = Inr pl \<and> post a tok pl = Inr i \<longrightarrow>
      ((\<exists>ip w'. create_droplet a tok (droplet_config l) w = Some (Inr (i, ip), w')) =
       (\<exists>m nets. get a tok i m = Inr nets \<and> public_ips nets \<noteq> [] \<and>
                  (\<forall>k<m. \<exists>nets'. get a tok i k = Inr nets'))) \<and>
      ((\<exists>ip w'. terraform_apply a w doc = Some (Inr (ApplyComplete ip), w')) =
       (\<exists>m nets. get a tok i m = Inr nets \<and> public_ips nets \<noteq> [] \<and>
                  (\<forall>k<m. \<exists>nets'. get a tok i k = Inr nets'))))"
  using poll_stalled [of a tok i 0 w] apply_stalled [of a tok i doc l pl w]
        poll_proceeds_iff [of a tok i w]
        create_proceeds_iff [of "droplet_config l" pl a tok i w]
        apply_proceeds_iff [of doc l tok pl a i w]
  by blast

theorem polling_unbounded_witness:
  "(\<forall>n. \<exists>nets. get stalled_api ''abc123'' 42 n = Inr nets \<and> public_ips nets = []) \<and>
   poll stalled_api ''abc123'' 42 0 empty_world = None \<and>
   terraform_apply stalled_api empty_world sample_document = None \<and>
   (\<exists>ip w'. terraform_apply ready_api empty_world sample_document
               = Some (Inr (ApplyComplete ip), w'))"
proof -
  have h: "\<forall>n. \<exists>nets. get stalled_api ''abc123'' 42 n = Inr nets \<and> public_ips nets = []"
    by (simp add: stalled_api_def public_ips_def)
  have wk: "walk init sample_document =
              Inr \<lparr>variables = [(''token'', ''abc123'')], provider_token_expr = Some ''var.token'',
                     droplet_config = sample_config\<rparr>"
    by (simp add: sample_document_def sample_config_def init_def enterVariable_def
          enterProvider_def enterResource_def quoted_def strip_def)
  have tk: "resolve_token \<lparr>variables = [(''token'', ''abc123'')],
                            provider_token_expr = Some ''var.token'',
                            droplet_config = sample_config\<rparr> = Inr ''abc123''"
    by (simp add: resolve_token_def startswith_def)
  have pl: "build_payload sample_config =
              Inr \<lparr>p_name = ''x'', p_region = ''nyc3'', p_size = ''s-1vcpu-1gb'',
                     p_image = ''ubuntu-22-04-x64''\<rparr>"
    by (simp add: build_payload_def config_get_def sample_config_def)
  have ne: "sample_config \<noteq> []"
    by (simp add: sample_config_def)
  have po: "post stalled_api ''abc123''
              \<lparr>p_name = ''x'', p_region = ''nyc3'', p_size = ''s-1vcpu-1gb'',
                p_image = ''ubuntu-22-04-x64''\<rparr> = Inr 42"
    by (simp add: stalled_api_def)
  have po': "post ready_api ''abc123''
              \<lparr>p_name = ''x'', p_region = ''nyc3'', p_size = ''s-1vcpu-1gb'',
                p_image = ''ubuntu-22-04-x64''\<rparr> = Inr 42"
    by (simp add: ready_api_def)
  have rd: "\<exists>m nets. get ready_api ''abc123'' 42 m = Inr nets \<and> public_ips nets \<noteq> [] \<and>
              (\<forall>k<m. \<exists>nets'. get ready_api ''abc123'' 42 k = Inr nets')"
    by (intro exI [of _ 0]) (simp add: ready_api_def public_ips_def)
  have stalled: "poll stalled_api ''abc123'' 42 0 empty_world = None \<and>
                 terraform_apply stalled_api empty_world sample_document = None"
    using polling_unbounded [of stalled_api "''abc123''" 42 empty_world sample_document
         "\<lparr>variables = [(''token'', ''abc123'')], provider_token_expr = Some ''var.token'',
           droplet_config = sample_config\<rparr>"
         "\<lparr>p_name = ''x'', p_region = ''nyc3'', p_size = ''s-1vcpu-1gb'',
           p_image = ''ubuntu-22-04-x64''\<rparr>"]
       h wk tk pl ne po
    by simp
  have ready: "\<exists>ip w'. terraform_apply ready_api empty_world sample_document
                          = Some (Inr (ApplyComplete ip), w')"
    using polling_unbounded [of ready_api "''abc123''" 42 empty_world sample_document
         "\<lparr>variables = [(''token'', ''abc123'')], provider_token_expr = Some ''var.token'',
           droplet_config = sample_config\<rparr>"
         "\<lparr>p_name = ''x'', p_region = ''nyc3'', p_size = ''s-1vcpu-1gb'',
           p_image = ''ubuntu-22-04-x64''\<rparr>"]
       wk tk pl ne po' rd
    by simp
  from h stalled ready show ?thesis by blast
qed

end
